theory Spec2Isabelle
  imports Main "HOL-Library.Word"
begin

unbundle bit_operations_syntax

section \<open>Machine types and outcomes\<close>

text \<open>
  The decoder of \<^verbatim>\<open>font/sfnt.go\<close> works on a byte slice with Go's fixed-width
  integers. Unsigned and signed 16-bit values are both kept as \<open>16 word\<close>: a Go
  \<^verbatim>\<open>int16\<close> is read through \<open>sint\<close>, and its additions wrap as the word's do.
  A \<^verbatim>\<open>rune\<close> (an \<^verbatim>\<open>int32\<close>) is an \<open>int\<close>; the conversions
  \<^verbatim>\<open>uint16(r)\<close> and \<^verbatim>\<open>uint32(r)\<close> are \<open>word_of_int\<close>.
  Lengths and positions of slices are natural numbers: \<^verbatim>\<open>ParseSFNT\<close> refuses a
  buffer longer than \<^verbatim>\<open>math.MaxInt32\<close>, so no length wraps in \<^verbatim>\<open>uint32\<close>.
\<close>

type_synonym byte = "8 word"
type_synonym uint16 = "16 word"
type_synonym uint32 = "32 word"

text \<open>
  A Go function here ends in one of three ways: it returns its value, it returns a
  non-nil \<^verbatim>\<open>error\<close> (kept with the fixed part of its message), or the runtime
  panics (an index or slice bound out of range, a nil pointer dereferenced).
\<close>

datatype 'a result = Ok 'a | Error string | Panic

fun rbind :: "'a result \<Rightarrow> ('a \<Rightarrow> 'b result) \<Rightarrow> 'b result" where
  "rbind (Ok a) f = f a"
| "rbind (Error e) f = Error e"
| "rbind Panic f = Panic"

text \<open>Indexing a Go slice: the runtime panics when the index is out of range.\<close>

definition at :: "'a list \<Rightarrow> int \<Rightarrow> 'a result" where
  "at xs i = (if 0 \<le> i \<and> i < int (length xs) then Ok (xs ! nat i) else Panic)"

definition be16 :: "byte \<Rightarrow> byte \<Rightarrow> uint16" where
  "be16 a b = push_bit 8 (ucast a) OR ucast b"

definition be32 :: "byte \<Rightarrow> byte \<Rightarrow> byte \<Rightarrow> byte \<Rightarrow> uint32" where
  "be32 a b c d =
     push_bit 24 (ucast a) OR push_bit 16 (ucast b) OR push_bit 8 (ucast c) OR ucast d"

section \<open>The cursor reader\<close>

text \<open>
  Modelled from the spec: the cursor reader \<^verbatim>\<open>binaryReader\<close>
  (\<^verbatim>\<open>newBinaryReader\<close>, \<^verbatim>\<open>Len\<close>, \<^verbatim>\<open>Pos\<close>, \<^verbatim>\<open>Seek\<close> and the
  \<^verbatim>\<open>Read...\<close> methods), whose source file is not among the sources. The spec
  describes it as a sequential big-endian reader over a fixed in-memory buffer with
  remaining-length queries and absolute seek, where every read is checked against the
  remaining length before consuming. A read that does not fit consumes nothing and
  yields the zero value (the empty slice for \<^verbatim>\<open>ReadBytes\<close>). The field
  \<^verbatim>\<open>buf\<close> is the one \<^verbatim>\<open>parseCmap\<close> assigns to.
\<close>

record binaryReader =
  buf :: "byte list"
  pos :: nat

definition newBinaryReader :: "byte list \<Rightarrow> binaryReader" where
  "newBinaryReader b = \<lparr>buf = b, pos = 0\<rparr>"

definition Len :: "binaryReader \<Rightarrow> nat" where
  "Len r = length (buf r) - pos r"

definition Pos :: "binaryReader \<Rightarrow> nat" where
  "Pos r = pos r"

definition Seek :: "binaryReader \<Rightarrow> nat \<Rightarrow> binaryReader" where
  "Seek r p = (if length (buf r) < p then r else r\<lparr>pos := p\<rparr>)"

definition ReadBytes :: "binaryReader \<Rightarrow> nat \<Rightarrow> byte list \<times> binaryReader" where
  "ReadBytes r n =
     (if Len r < n then ([], r)
      else (take n (drop (pos r) (buf r)), r\<lparr>pos := pos r + n\<rparr>))"

definition ReadByte :: "binaryReader \<Rightarrow> byte \<times> binaryReader" where
  "ReadByte r =
     (if Len r < 1 then (0, r) else (buf r ! pos r, r\<lparr>pos := pos r + 1\<rparr>))"

definition ReadUint8 :: "binaryReader \<Rightarrow> byte \<times> binaryReader" where
  "ReadUint8 r = ReadByte r"

definition ReadUint16 :: "binaryReader \<Rightarrow> uint16 \<times> binaryReader" where
  "ReadUint16 r =
     (if Len r < 2 then (0, r)
      else (be16 (buf r ! pos r) (buf r ! (pos r + 1)), r\<lparr>pos := pos r + 2\<rparr>))"

definition ReadUint32 :: "binaryReader \<Rightarrow> uint32 \<times> binaryReader" where
  "ReadUint32 r =
     (if Len r < 4 then (0, r)
      else (be32 (buf r ! pos r) (buf r ! (pos r + 1)) (buf r ! (pos r + 2))
              (buf r ! (pos r + 3)),
            r\<lparr>pos := pos r + 4\<rparr>))"

text \<open>\<^verbatim>\<open>ReadInt16\<close> yields the same 16 bits, read as two's complement by \<open>sint\<close>.\<close>

definition ReadInt16 :: "binaryReader \<Rightarrow> uint16 \<times> binaryReader" where
  "ReadInt16 r = ReadUint16 r"

text \<open>\<^verbatim>\<open>int16(r.ReadInt8())\<close>: one byte, sign-extended to 16 bits.\<close>

definition ReadInt8 :: "binaryReader \<Rightarrow> byte \<times> binaryReader" where
  "ReadInt8 r = ReadByte r"

definition ReadString :: "binaryReader \<Rightarrow> nat \<Rightarrow> string \<times> binaryReader" where
  "ReadString r n =
     (case ReadBytes r n of (bs, r') \<Rightarrow> (map (\<lambda>b. char_of (unat b)) bs, r'))"

section \<open>The location index and the glyph data (loca, glyf)\<close>

text \<open>
  \<^verbatim>\<open>parseLoca\<close> allocates \<^verbatim>\<open>make([]uint32, sfnt.Maxp.NumGlyphs+1)\<close>, where
  \<^verbatim>\<open>NumGlyphs\<close> is a \<^verbatim>\<open>uint16\<close>: the sum is taken in 16 bits. The two loops
  fill the slice in order and compare each entry with the one before it.
\<close>

function parseLoca_short ::
  "nat \<Rightarrow> nat \<Rightarrow> binaryReader \<Rightarrow> uint32 list \<Rightarrow> uint32 list result" where
  "parseLoca_short i n r Offsets =
     (if i < n then
        (case ReadUint16 r of (v, r') \<Rightarrow>
           (let Offsets' = Offsets[i := ucast v] in
            if 0 < i \<and> Offsets' ! i < Offsets' ! (i - 1) then Error ''loca: bad offsets''
            else parseLoca_short (i + 1) n r' Offsets'))
      else Ok Offsets)"
  by pat_completeness auto
termination
  by (relation "measure (\<lambda>(i, n, r, Offsets). n - i)") auto

declare parseLoca_short.simps [simp del]

function parseLoca_long ::
  "nat \<Rightarrow> nat \<Rightarrow> binaryReader \<Rightarrow> uint32 list \<Rightarrow> uint32 list result" where
  "parseLoca_long i n r Offsets =
     (if i < n then
        (case ReadUint32 r of (v, r') \<Rightarrow>
           (let Offsets' = Offsets[i := v] in
            if 0 < i \<and> Offsets' ! i < Offsets' ! (i - 1) then Error ''loca: bad offsets''
            else parseLoca_long (i + 1) n r' Offsets'))
      else Ok Offsets)"
  by pat_completeness auto
termination
  by (relation "measure (\<lambda>(i, n, r, Offsets). n - i)") auto

declare parseLoca_long.simps [simp del]

text \<open>
  \<^verbatim>\<open>parseLoca\<close>, given the table's bytes (\<open>None\<close> when the directory has no
  \<^verbatim>\<open>loca\<close>), \<^verbatim>\<open>Maxp.NumGlyphs\<close> and \<^verbatim>\<open>Head.IndexToLocFormat\<close>.
\<close>

definition parseLoca :: "byte list option \<Rightarrow> uint16 \<Rightarrow> uint16 \<Rightarrow> uint32 list result" where
  "parseLoca tab NumGlyphs IndexToLocFormat =
     (case tab of
        None \<Rightarrow> Error ''loca: missing table''
      | Some b \<Rightarrow>
          (let Offsets = replicate (unat (NumGlyphs + 1)) (0 :: uint32);
               r = newBinaryReader b
           in if sint IndexToLocFormat = 0 then
                (if length b \<noteq> 2 * (unat NumGlyphs + 1) then Error ''loca: bad table''
                 else parseLoca_short 0 (unat (NumGlyphs + 1)) r Offsets)
              else if sint IndexToLocFormat = 1 then
                (if length b \<noteq> 4 * (unat NumGlyphs + 1) then Error ''loca: bad table''
                 else parseLoca_long 0 (unat (NumGlyphs + 1)) r Offsets)
              else Ok Offsets))"

record glyfTable =
  data :: "byte list"
  loca :: "uint32 list"

text \<open>
  \<^verbatim>\<open>parseGlyf\<close> reads \<^verbatim>\<open>sfnt.Loca.Offsets[len(sfnt.Loca.Offsets)-1]\<close>: on an
  empty slice the index is \<open>-1\<close> and the runtime panics. The comparison is made in
  \<^verbatim>\<open>uint32\<close>.
\<close>

definition parseGlyf :: "byte list option \<Rightarrow> uint32 list \<Rightarrow> glyfTable result" where
  "parseGlyf tab Offsets =
     (case tab of
        None \<Rightarrow> Error ''glyf: missing table''
      | Some b \<Rightarrow>
          rbind (at Offsets (int (length Offsets) - 1)) (\<lambda>final.
            if (of_nat (length b) :: uint32) \<noteq> final then Error ''glyf: bad table''
            else Ok \<lparr>data = b, loca = Offsets\<rparr>))"



section \<open>Glyph outlines (glyf)\<close>

record glyfContour =
  GlyphID :: uint16
  XMin :: uint16
  YMin :: uint16
  XMax :: uint16
  YMax :: uint16
  EndPoints :: "uint16 list"
  Instructions :: "byte list"
  OnCurve :: "bool list"
  XCoordinates :: "uint16 list"
  YCoordinates :: "uint16 list"

text \<open>
  \<^verbatim>\<open>glyfTable.Get\<close>: \<open>Ok None\<close> is the nil slice. The index
  \<^verbatim>\<open>glyphID+1\<close> is a \<^verbatim>\<open>uint16\<close> sum; the slice expression
  \<^verbatim>\<open>glyf.data[start:end]\<close> panics unless \<open>start \<le> end \<le> cap\<close>, and the
  capacity of a table's slice is its length.
\<close>

definition glyfTable_Get :: "glyfTable \<Rightarrow> uint16 \<Rightarrow> byte list option result" where
  "glyfTable_Get glyf glyphID =
     (if int (length (loca glyf)) \<le> uint glyphID + 1 then Ok None
      else
        rbind (at (loca glyf) (uint glyphID)) (\<lambda>start.
        rbind (at (loca glyf) (uint (glyphID + 1))) (\<lambda>end.
          if start \<le> end \<and> unat end \<le> length (data glyf)
          then Ok (Some (take (unat end - unat start) (drop (unat start) (data glyf))))
          else Panic)))"

lemma rbind_cong [fundef_cong]:
  "m = m' \<Longrightarrow> (\<And>a. m' = Ok a \<Longrightarrow> f a = f' a) \<Longrightarrow> rbind m f = rbind m' f'"
  by (cases m') auto

text \<open>
  A loop that fills a slice of \<open>n\<close> elements with \<open>n\<close> calls of
  \<^verbatim>\<open>ReadUint16\<close> or \<^verbatim>\<open>ReadInt16\<close>: the end points of a simple glyph
  (lines 588 to 591), the \<^verbatim>\<open>idDelta\<close> values of a cmap format 4 subtable (lines
  410 to 413) and the glyph IDs of a format 6 subtable (lines 455 to 458).
\<close>

function readUint16s ::
  "nat \<Rightarrow> nat \<Rightarrow> binaryReader \<Rightarrow> uint16 list \<Rightarrow> uint16 list \<times> binaryReader" where
  "readUint16s i n r eps =
     (if i < n then
        (case ReadUint16 r of (v, r') \<Rightarrow> readUint16s (i + 1) n r' (eps[i := v]))
      else (eps, r))"
  by pat_completeness auto
termination
  by (relation "measure (\<lambda>(i, n, r, eps). n - i)") auto

declare readUint16s.simps [simp del]

text \<open>
  The inner loop of the flag expansion (lines 611 to 614): the flag at \<open>i\<close> is copied
  to \<open>i + j\<close> for \<open>j = 1, ..., repeat\<close>. Both slices have \<^verbatim>\<open>numPoints\<close>
  elements, and an assignment past the end panics.
\<close>

function repeatFlags ::
  "nat \<Rightarrow> nat \<Rightarrow> nat \<Rightarrow> byte list \<Rightarrow> bool list \<Rightarrow> (byte list \<times> bool list) result" where
  "repeatFlags j repeat i flags onCurve =
     (if j \<le> repeat then
        (if i + j < length flags \<and> i + j < length onCurve then
           repeatFlags (j + 1) repeat i (flags[i + j := flags ! i])
             (onCurve[i + j := onCurve ! i])
         else Panic)
      else Ok (flags, onCurve))"
  by pat_completeness auto
termination
  by (relation "measure (\<lambda>(j, repeat, i, flags, onCurve). Suc repeat - j)") auto

declare repeatFlags.simps [simp del]

text \<open>The flag loop (lines 602 to 617).\<close>

function readFlags ::
  "nat \<Rightarrow> nat \<Rightarrow> binaryReader \<Rightarrow> byte list \<Rightarrow> bool list \<Rightarrow>
   (byte list \<times> bool list \<times> binaryReader) result" where
  "readFlags i numPoints r flags onCurve =
     (if i < numPoints then
        (if Len r < 1 then Error ''glyf: bad table for glyphID''
         else
           (case ReadByte r of (f, r1) \<Rightarrow>
              (let flags1 = flags[i := f];
                   onCurve1 = onCurve[i := (f AND 0x01 \<noteq> 0)]
               in if f AND 0x08 \<noteq> 0 then
                    (case ReadByte r1 of (repeat, r2) \<Rightarrow>
                       rbind (repeatFlags 1 (unat repeat) i flags1 onCurve1)
                         (\<lambda>(flags2, onCurve2).
                            readFlags (i + unat repeat + 1) numPoints r2 flags2 onCurve2))
                  else readFlags (i + 1) numPoints r1 flags1 onCurve1)))
      else Ok (flags, onCurve, r))"
  by pat_completeness auto
termination
  by (relation "measure (\<lambda>(i, numPoints, r, flags, onCurve). numPoints - i)") auto

declare readFlags.simps [simp del]

text \<open>
  The two coordinate loops (lines 619 to 640 for x, 642 to 663 for y) are the same
  loop over different flag bits: \<open>short\<close> is \<^verbatim>\<open>0x02\<close> for x and \<^verbatim>\<open>0x04\<close> for
  y, \<open>same\<close> is \<^verbatim>\<open>0x10\<close> for x and \<^verbatim>\<open>0x20\<close> for y. The running coordinate
  is an \<^verbatim>\<open>int16\<close> and wraps.
\<close>

function readCoordinates ::
  "byte \<Rightarrow> byte \<Rightarrow> nat \<Rightarrow> nat \<Rightarrow> binaryReader \<Rightarrow> byte list \<Rightarrow> uint16 \<Rightarrow> uint16 list \<Rightarrow>
   (uint16 list \<times> binaryReader) result" where
  "readCoordinates short same i numPoints r flags x xs =
     (if i < numPoints then
        (if flags ! i AND short \<noteq> 0 then
           (if Len r < 1 then Error ''glyf: bad table or flags for glyphID''
            else
              (case ReadUint8 r of (v, r') \<Rightarrow>
                 (let x' = (if flags ! i AND same \<noteq> 0 then x + ucast v else x - ucast v)
                  in readCoordinates short same (i + 1) numPoints r' flags x' (xs[i := x']))))
         else if \<not> (flags ! i AND same \<noteq> 0) then
           (if Len r < 2 then Error ''glyf: bad table or flags for glyphID''
            else
              (case ReadInt16 r of (v, r') \<Rightarrow>
                 (let x' = x + v
                  in readCoordinates short same (i + 1) numPoints r' flags x' (xs[i := x']))))
         else readCoordinates short same (i + 1) numPoints r flags x (xs[i := x]))
      else Ok (xs, r))"
  by pat_completeness auto
termination
  by (relation "measure (\<lambda>(short, same, i, numPoints, r, flags, x, xs). numPoints - i)") auto

declare readCoordinates.simps [simp del]

text \<open>
  The simple-glyph branch (lines 584 to 663). \<^verbatim>\<open>numberOfContours\<close> is not
  negative here; \<^verbatim>\<open>contour.EndPoints[numberOfContours-1]\<close> panics when it is zero.
\<close>

definition simpleGlyph ::
  "glyfContour \<Rightarrow> uint16 \<Rightarrow> binaryReader \<Rightarrow> glyfContour option result" where
  "simpleGlyph contour numberOfContours r =
     (if Len r < 2 * unat numberOfContours + 2 then Error ''glyf: bad table for glyphID''
      else
        (case readUint16s 0 (unat numberOfContours) r
                (replicate (unat numberOfContours) 0) of (eps, r1) \<Rightarrow>
         (case ReadUint16 r1 of (instructionLength, r2) \<Rightarrow>
            if Len r2 < unat instructionLength then Error ''glyf: bad table for glyphID''
            else
              (case ReadBytes r2 (unat instructionLength) of (instrs, r3) \<Rightarrow>
                 rbind (at eps (sint numberOfContours - 1)) (\<lambda>lastEnd.
                   let numPoints = unat lastEnd + 1 in
                   rbind (readFlags 0 numPoints r3 (replicate numPoints 0)
                            (replicate numPoints False)) (\<lambda>(flags, onCurve, r4).
                   rbind (readCoordinates 0x02 0x10 0 numPoints r4 flags 0
                            (replicate numPoints 0)) (\<lambda>(xs, r5).
                   rbind (readCoordinates 0x04 0x20 0 numPoints r5 flags 0
                            (replicate numPoints 0)) (\<lambda>(ys, r6).
                     Ok (Some (contour\<lparr>EndPoints := eps, Instructions := instrs,
                                       OnCurve := onCurve, XCoordinates := xs,
                                       YCoordinates := ys\<rparr>))))))))))"

text \<open>
  One component record of a composite glyph: the head of the loop body (lines 671 to
  715), up to the recursive call.
\<close>

record component =
  flags :: uint16
  subGlyphID :: uint16
  dx :: uint16
  dy :: uint16
  txx :: uint16
  txy :: uint16
  tyx :: uint16
  tyy :: uint16

definition readTransform ::
  "component \<Rightarrow> binaryReader \<Rightarrow> (component \<times> binaryReader) result" where
  "readTransform c r =
     (if flags c AND 0x0008 \<noteq> 0 then
        (if Len r < 2 then Error ''glyf: bad table for glyphID''
         else (case ReadInt16 r of (a, r1) \<Rightarrow> Ok (c\<lparr>txx := a, tyy := a\<rparr>, r1)))
      else if flags c AND 0x0040 \<noteq> 0 then
        (if Len r < 4 then Error ''glyf: bad table for glyphID''
         else
           (case ReadInt16 r of (a, r1) \<Rightarrow>
            (case ReadInt16 r1 of (d, r2) \<Rightarrow> Ok (c\<lparr>txx := a, tyy := d\<rparr>, r2))))
      else if flags c AND 0x0080 \<noteq> 0 then
        (if Len r < 8 then Error ''glyf: bad table for glyphID''
         else
           (case ReadInt16 r of (a, r1) \<Rightarrow>
            (case ReadInt16 r1 of (b, r2) \<Rightarrow>
            (case ReadInt16 r2 of (c', r3) \<Rightarrow>
            (case ReadInt16 r3 of (d, r4) \<Rightarrow>
               Ok (c\<lparr>txx := a, txy := b, tyx := c', tyy := d\<rparr>, r4))))))
      else Ok (c, r))"

definition readComponent :: "binaryReader \<Rightarrow> (component \<times> binaryReader) result" where
  "readComponent r =
     (if Len r < 4 then Error ''glyf: bad table for glyphID''
      else
        (case ReadUint16 r of (fl, r1) \<Rightarrow>
         (case ReadUint16 r1 of (sub, r2) \<Rightarrow>
            let c = \<lparr>flags = fl, subGlyphID = sub, dx = 0, dy = 0,
                     txx = 0, txy = 0, tyx = 0, tyy = 0\<rparr>
            in if fl AND 0x0002 = 0 then Error ''glyf: composite glyph not supported''
               else if fl AND 0x0001 \<noteq> 0 then
                 (if Len r2 < 4 then Error ''glyf: bad table for glyphID''
                  else
                    (case ReadInt16 r2 of (x, r3) \<Rightarrow>
                     (case ReadInt16 r3 of (y, r4) \<Rightarrow>
                        readTransform (c\<lparr>dx := x, dy := y\<rparr>) r4)))
               else
                 (if Len r2 < 2 then Error ''glyf: bad table for glyphID''
                  else
                    (case ReadInt8 r2 of (x, r3) \<Rightarrow>
                     (case ReadInt8 r3 of (y, r4) \<Rightarrow>
                        readTransform (c\<lparr>dx := scast x, dy := scast y\<rparr>) r4))))))"

text \<open>
  The 2.14 fixed-point product of line 735: the sum is taken in \<^verbatim>\<open>int64\<close>, the
  shift is arithmetic (it rounds towards minus infinity, as \<open>div\<close> on \<open>int\<close> does),
  and \<^verbatim>\<open>int16(...)\<close> keeps the low 16 bits.
\<close>

definition mul2dot14 :: "uint16 \<Rightarrow> uint16 \<Rightarrow> uint16" where
  "mul2dot14 a t = word_of_int ((sint a * sint t + 8192) div 16384)"

text \<open>
  The coordinate loop of lines 730 to 741. It runs over the sub-glyph's x coordinates
  and indexes its y coordinates with the same index.
\<close>

function appendCoordinates ::
  "component \<Rightarrow> glyfContour \<Rightarrow> nat \<Rightarrow> glyfContour \<Rightarrow> glyfContour result" where
  "appendCoordinates c subContour i contour =
     (if i < length (XCoordinates subContour) then
        rbind (at (YCoordinates subContour) (int i)) (\<lambda>y.
          let x = XCoordinates subContour ! i;
              xt = (if flags c AND 0x00C8 \<noteq> 0
                    then mul2dot14 x (txx c) + mul2dot14 y (tyx c) else x);
              yt = (if flags c AND 0x00C8 \<noteq> 0
                    then mul2dot14 x (txy c) + mul2dot14 y (tyy c) else y)
          in appendCoordinates c subContour (i + 1)
               (contour\<lparr>XCoordinates := XCoordinates contour @ [dx c + xt],
                        YCoordinates := YCoordinates contour @ [dy c + yt]\<rparr>))
      else Ok contour)"
  by pat_completeness auto
termination
  by (relation "measure (\<lambda>(c, subContour, i, contour). length (XCoordinates subContour) - i)")
    auto

declare appendCoordinates.simps [simp del]

text \<open>
  Lines 722 to 741: the sub-glyph's end points are renumbered by the running point
  count (a \<^verbatim>\<open>uint16\<close>), its on-curve flags appended, its points transformed and
  translated.
\<close>

definition appendComponent ::
  "component \<Rightarrow> glyfContour \<Rightarrow> glyfContour \<Rightarrow> glyfContour result" where
  "appendComponent c subContour contour =
     (let numPoints = (if 0 < length (EndPoints contour)
                       then last (EndPoints contour) + 1 else 0)
      in appendCoordinates c subContour 0
           (contour\<lparr>EndPoints := EndPoints contour @
                                   map (\<lambda>e. numPoints + e) (EndPoints subContour),
                    OnCurve := OnCurve contour @ OnCurve subContour\<rparr>))"


lemma readTransform_Len: "readTransform c r = Ok (c', r') \<Longrightarrow> Len r' \<le> Len r"
  unfolding readTransform_def ReadInt16_def
  by (auto split: if_splits prod.splits simp: ReadUint16_def Len_def)

lemma readComponent_Len: "readComponent r = Ok (c, r') \<Longrightarrow> Len r' < Len r"
  unfolding readComponent_def ReadInt16_def ReadInt8_def Let_def
  by (auto split: if_splits prod.splits dest!: readTransform_Len
        simp: ReadUint16_def ReadByte_def Len_def)

text \<open>
  The component loop of a composite glyph (lines 670 to 745). \<open>resolve\<close> is the
  recursive call \<^verbatim>\<open>glyf.Contour(subGlyphID, level+1)\<close>. A sub-glyph without
  outline comes back as the nil pointer, and \<^verbatim>\<open>subContour.EndPoints\<close> then
  dereferences it.
\<close>

function compositeLoop ::
  "(uint16 \<Rightarrow> glyfContour option result) \<Rightarrow> binaryReader \<Rightarrow> glyfContour \<Rightarrow>
   glyfContour option result" where
  "compositeLoop resolve r contour =
     rbind (readComponent r) (\<lambda>(c, r').
     rbind (resolve (subGlyphID c)) (\<lambda>sub.
       (case sub of
          None \<Rightarrow> Panic
        | Some subContour \<Rightarrow>
            rbind (appendComponent c subContour contour) (\<lambda>contour'.
              if flags c AND 0x0020 = 0 then Ok (Some contour')
              else compositeLoop resolve r' contour'))))"
  by pat_completeness auto
termination
  by (relation "measure (\<lambda>(resolve, r, contour). Len r)") (auto dest: readComponent_Len)

declare compositeLoop.simps [simp del]

text \<open>
  \<^verbatim>\<open>glyfTable.Contour\<close>. \<open>Ok None\<close> is the result \<^verbatim>\<open>nil, nil\<close> ("no
  outline"). The recursion is on the nesting level, which a composite glyph may only
  pass on while it is at most 7.
\<close>

function Contour :: "glyfTable \<Rightarrow> uint16 \<Rightarrow> nat \<Rightarrow> glyfContour option result" where
  "Contour glyf glyphID level =
     rbind (glyfTable_Get glyf glyphID) (\<lambda>got.
       (case got of
          None \<Rightarrow> Error ''glyf: bad glyphID''
        | Some b \<Rightarrow>
            if length b = 0 then Ok None
            else
              (let r = newBinaryReader b in
               if Len r < 10 then Error ''glyf: bad table for glyphID''
               else
                 (case ReadInt16 r of (numberOfContours, r1) \<Rightarrow>
                  (case ReadInt16 r1 of (xMin, r2) \<Rightarrow>
                  (case ReadInt16 r2 of (yMin, r3) \<Rightarrow>
                  (case ReadInt16 r3 of (xMax, r4) \<Rightarrow>
                  (case ReadInt16 r4 of (yMax, r5) \<Rightarrow>
                     (let contour = \<lparr>GlyphID = glyphID, XMin = xMin, YMin = yMin,
                                      XMax = xMax, YMax = yMax, EndPoints = [],
                                      Instructions = [], OnCurve = [],
                                      XCoordinates = [], YCoordinates = []\<rparr>
                      in if 0 \<le> sint numberOfContours
                         then simpleGlyph contour numberOfContours r5
                         else if 7 < level
                         then Error ''glyf: compound glyphs too deeply nested''
                         else compositeLoop (\<lambda>subGlyphID. Contour glyf subGlyphID (level + 1))
                                r5 contour)))))))))"
  by pat_completeness auto
termination
  by (relation "measure (\<lambda>(glyf, glyphID, level). 8 - level)") auto

declare Contour.simps [simp del]

text \<open>
  \<^verbatim>\<open>SFNT.GlyphContour\<close>, on the two fields it reads: \<^verbatim>\<open>IsTrueType\<close> and
  \<^verbatim>\<open>Glyf\<close> (a pointer, nil until \<^verbatim>\<open>parseGlyf\<close> has set it).
\<close>

definition GlyphContour ::
  "bool \<Rightarrow> glyfTable option \<Rightarrow> uint16 \<Rightarrow> glyfContour option result" where
  "GlyphContour IsTrueType Glyf glyphID =
     (if \<not> IsTrueType then Error ''CFF not supported''
      else (case Glyf of None \<Rightarrow> Panic | Some glyf \<Rightarrow> Contour glyf glyphID 0))"


section \<open>Character maps (cmap)\<close>

record cmapFormat0 =
  GlyphIdArray0 :: "byte list"

record cmapFormat4 =
  StartCode :: "uint16 list"
  EndCode :: "uint16 list"
  IdDelta :: "uint16 list"
  IdRangeOffset :: "uint16 list"
  GlyphIdArray :: "uint16 list"

record cmapFormat6 =
  FirstCode :: uint16
  GlyphIdArray6 :: "uint16 list"

record cmapFormat12 =
  StartCharCode :: "uint32 list"
  EndCharCode :: "uint32 list"
  StartGlyphID :: "uint32 list"

text \<open>The interface \<^verbatim>\<open>cmapSubtable\<close> has these four implementations.\<close>

datatype cmapSubtable =
  Format0 cmapFormat0 | Format4 cmapFormat4 | Format6 cmapFormat6 | Format12 cmapFormat12

record cmapEncodingRecord =
  PlatformID :: uint16
  EncodingID :: uint16
  Format :: uint16
  Subtable :: uint16

record cmapTable =
  EncodingRecords :: "cmapEncodingRecord list"
  Subtables :: "cmapSubtable list"

text \<open>
  The lookups return the pair \<^verbatim>\<open>(uint16, bool)\<close>; an index out of range panics.
  A rune is an \<^verbatim>\<open>int32\<close>.
\<close>

definition cmapFormat0_Get :: "cmapFormat0 \<Rightarrow> int \<Rightarrow> (uint16 \<times> bool) result" where
  "cmapFormat0_Get subtable r =
     (if r < 0 \<or> 256 \<le> r then Ok (0, False)
      else rbind (at (GlyphIdArray0 subtable) r) (\<lambda>g. Ok (ucast g, True)))"

text \<open>
  The loop of \<^verbatim>\<open>cmapFormat4.Get\<close> (lines 217 to 229), with
  \<open>n = len(subtable.StartCode)\<close>.
\<close>

function cmapFormat4_Get_loop ::
  "cmapFormat4 \<Rightarrow> int \<Rightarrow> nat \<Rightarrow> nat \<Rightarrow> (uint16 \<times> bool) result" where
  "cmapFormat4_Get_loop subtable r i n =
     (if i < n then
        rbind (at (EndCode subtable) (int i)) (\<lambda>endCode.
          if (word_of_int r :: uint16) \<le> endCode \<and> StartCode subtable ! i \<le> word_of_int r then
            rbind (at (IdRangeOffset subtable) (int i)) (\<lambda>idRangeOffset.
              if idRangeOffset = 0 then
                rbind (at (IdDelta subtable) (int i)) (\<lambda>idDelta.
                  Ok (idDelta + word_of_int r, True))
              else
                (let index = uint (idRangeOffset div 2)
                             + uint ((word_of_int r :: uint16) - StartCode subtable ! i)
                             - (int n - int i)
                 in rbind (at (GlyphIdArray subtable) index) (\<lambda>g. Ok (g, True))))
          else cmapFormat4_Get_loop subtable r (i + 1) n)
      else Ok (0, False))"
  by pat_completeness auto
termination
  by (relation "measure (\<lambda>(subtable, r, i, n). n - i)") auto

declare cmapFormat4_Get_loop.simps [simp del]

definition cmapFormat4_Get :: "cmapFormat4 \<Rightarrow> int \<Rightarrow> (uint16 \<times> bool) result" where
  "cmapFormat4_Get subtable r =
     (if r < 0 \<or> 65536 \<le> r then Ok (0, False)
      else cmapFormat4_Get_loop subtable r 0 (length (StartCode subtable)))"

definition cmapFormat6_Get :: "cmapFormat6 \<Rightarrow> int \<Rightarrow> (uint16 \<times> bool) result" where
  "cmapFormat6_Get subtable r =
     (if r < uint (FirstCode subtable)
         \<or> (of_nat (length (GlyphIdArray6 subtable)) :: uint32)
             \<le> word_of_int r - ucast (FirstCode subtable)
      then Ok (0, False)
      else rbind (at (GlyphIdArray6 subtable)
                    (uint ((word_of_int r :: uint32) - ucast (FirstCode subtable))))
             (\<lambda>g. Ok (g, True)))"

function cmapFormat12_Get_loop ::
  "cmapFormat12 \<Rightarrow> int \<Rightarrow> nat \<Rightarrow> (uint16 \<times> bool) result" where
  "cmapFormat12_Get_loop subtable r i =
     (if i < length (StartCharCode subtable) then
        rbind (at (EndCharCode subtable) (int i)) (\<lambda>endCharCode.
          if (word_of_int r :: uint32) \<le> endCharCode
             \<and> StartCharCode subtable ! i \<le> word_of_int r then
            rbind (at (StartGlyphID subtable) (int i)) (\<lambda>startGlyphID.
              Ok (ucast ((word_of_int r - StartCharCode subtable ! i) + startGlyphID), True))
          else cmapFormat12_Get_loop subtable r (i + 1))
      else Ok (0, False))"
  by pat_completeness auto
termination
  by (relation "measure (\<lambda>(subtable, r, i). length (StartCharCode subtable) - i)") auto

declare cmapFormat12_Get_loop.simps [simp del]

definition cmapFormat12_Get :: "cmapFormat12 \<Rightarrow> int \<Rightarrow> (uint16 \<times> bool) result" where
  "cmapFormat12_Get subtable r =
     (if r < 0 then Ok (0, False) else cmapFormat12_Get_loop subtable r 0)"

fun cmapSubtable_Get :: "cmapSubtable \<Rightarrow> int \<Rightarrow> (uint16 \<times> bool) result" where
  "cmapSubtable_Get (Format0 t) r = cmapFormat0_Get t r"
| "cmapSubtable_Get (Format4 t) r = cmapFormat4_Get t r"
| "cmapSubtable_Get (Format6 t) r = cmapFormat6_Get t r"
| "cmapSubtable_Get (Format12 t) r = cmapFormat12_Get t r"

text \<open>\<^verbatim>\<open>cmapTable.Get\<close>: the first subtable that maps the rune, else glyph 0.\<close>

fun cmapTable_Get_loop :: "cmapSubtable list \<Rightarrow> int \<Rightarrow> uint16 result" where
  "cmapTable_Get_loop [] r = Ok 0"
| "cmapTable_Get_loop (subtable # rest) r =
     rbind (cmapSubtable_Get subtable r) (\<lambda>(glyphID, ok).
       if ok then Ok glyphID else cmapTable_Get_loop rest r)"

definition cmapTable_Get :: "cmapTable \<Rightarrow> int \<Rightarrow> uint16 result" where
  "cmapTable_Get t r = cmapTable_Get_loop (Subtables t) r"

definition MaxCmapSegments :: nat where
  "MaxCmapSegments = 20000"

subsection \<open>Decoding a format 4 subtable\<close>

text \<open>Lines 393 to 400.\<close>

function readEndCode ::
  "nat \<Rightarrow> nat \<Rightarrow> binaryReader \<Rightarrow> uint16 list \<Rightarrow> (uint16 list \<times> binaryReader) result" where
  "readEndCode i segCount rs EndCodes =
     (if i < segCount then
        (case ReadUint16 rs of (endCode, rs') \<Rightarrow>
           if 0 < i \<and> endCode \<le> EndCodes ! (i - 1) then Error ''cmap: bad endCode in subtable''
           else readEndCode (i + 1) segCount rs' (EndCodes[i := endCode]))
      else Ok (EndCodes, rs))"
  by pat_completeness auto
termination
  by (relation "measure (\<lambda>(i, segCount, rs, EndCodes). segCount - i)") auto

declare readEndCode.simps [simp del]

text \<open>Lines 402 to 409.\<close>

function readStartCode ::
  "nat \<Rightarrow> nat \<Rightarrow> binaryReader \<Rightarrow> uint16 list \<Rightarrow> uint16 list \<Rightarrow>
   (uint16 list \<times> binaryReader) result" where
  "readStartCode i segCount rs EndCodes StartCodes =
     (if i < segCount then
        (case ReadUint16 rs of (startCode, rs') \<Rightarrow>
           if EndCodes ! i < startCode \<or> 0 < i \<and> startCode \<le> EndCodes ! (i - 1)
           then Error ''cmap: bad startCode in subtable''
           else readStartCode (i + 1) segCount rs' EndCodes (StartCodes[i := startCode]))
      else Ok (StartCodes, rs))"
  by pat_completeness auto
termination
  by (relation "measure (\<lambda>(i, segCount, rs, EndCodes, StartCodes). segCount - i)") auto

declare readStartCode.simps [simp del]

text \<open>
  Lines 421 to 433: the only check on \<^verbatim>\<open>idRangeOffset\<close>. The index is computed for
  the segment's end code, in \<^verbatim>\<open>int\<close>.
\<close>

function readIdRangeOffset ::
  "nat \<Rightarrow> nat \<Rightarrow> binaryReader \<Rightarrow> uint16 list \<Rightarrow> uint16 list \<Rightarrow> nat \<Rightarrow> uint16 list \<Rightarrow>
   (uint16 list \<times> binaryReader) result" where
  "readIdRangeOffset i segCount rs EndCodes StartCodes glyphIdArrayLength IdRangeOffsets =
     (if i < segCount then
        (case ReadUint16 rs of (idRangeOffset, rs') \<Rightarrow>
           if idRangeOffset mod 2 \<noteq> 0 then Error ''cmap: bad idRangeOffset in subtable''
           else if idRangeOffset \<noteq> 0
                   \<and> (let index = uint (idRangeOffset div 2)
                                   + uint (EndCodes ! i - StartCodes ! i)
                                   - (int segCount - int i)
                      in index < 0 \<or> int glyphIdArrayLength \<le> index)
           then Error ''cmap: bad idRangeOffset in subtable''
           else readIdRangeOffset (i + 1) segCount rs' EndCodes StartCodes glyphIdArrayLength
                  (IdRangeOffsets[i := idRangeOffset]))
      else Ok (IdRangeOffsets, rs))"
  by pat_completeness auto
termination
  by (relation "measure (\<lambda>(i, segCount, rs, EndCodes, StartCodes, n, IdRangeOffsets).
                            segCount - i)") auto

declare readIdRangeOffset.simps [simp del]

text \<open>Lines 434 to 441: every entry of the glyph index array is below \<^verbatim>\<open>NumGlyphs\<close>.\<close>

function readGlyphIdArray ::
  "nat \<Rightarrow> nat \<Rightarrow> binaryReader \<Rightarrow> uint16 \<Rightarrow> uint16 list \<Rightarrow>
   (uint16 list \<times> binaryReader) result" where
  "readGlyphIdArray i n rs NumGlyphs arr =
     (if i < n then
        (case ReadUint16 rs of (glyphID, rs') \<Rightarrow>
           if NumGlyphs \<le> glyphID then Error ''cmap: bad glyphID in subtable''
           else readGlyphIdArray (i + 1) n rs' NumGlyphs (arr[i := glyphID]))
      else Ok (arr, rs))"
  by pat_completeness auto
termination
  by (relation "measure (\<lambda>(i, n, rs, NumGlyphs, arr). n - i)") auto

declare readGlyphIdArray.simps [simp del]

text \<open>
  \<^verbatim>\<open>case 4\<close> of \<^verbatim>\<open>parseCmap\<close> (lines 371 to 442); \<open>rs\<close> stands behind the
  subtable's format and length fields, its buffer cut to the declared length.
\<close>

definition parseCmapFormat4 :: "binaryReader \<Rightarrow> uint16 \<Rightarrow> cmapFormat4 result" where
  "parseCmapFormat4 rs NumGlyphs =
     (if Len rs < 10 then Error ''cmap: bad subtable''
      else
        (case ReadUint16 rs of (languageID, rs1) \<Rightarrow>
         (case ReadUint16 rs1 of (segCountX2, rs2) \<Rightarrow>
            if segCountX2 mod 2 \<noteq> 0 then Error ''cmap: bad segCount in subtable''
            else
              (let segCount = unat (segCountX2 div 2) in
               if MaxCmapSegments < segCount then Error ''cmap: too many segments in subtable''
               else
                 (case ReadUint16 rs2 of (searchRange, rs3) \<Rightarrow>
                  (case ReadUint16 rs3 of (entrySelector, rs4) \<Rightarrow>
                  (case ReadUint16 rs4 of (rangeShift, rs5) \<Rightarrow>
                     if Len rs5 < 2 + 8 * segCount then Error ''cmap: bad subtable''
                     else
                       rbind (readEndCode 0 segCount rs5 (replicate segCount 0))
                         (\<lambda>(EndCodes, rs6).
                       (case ReadUint16 rs6 of (reservedPad, rs7) \<Rightarrow>
                       rbind (readStartCode 0 segCount rs7 EndCodes (replicate segCount 0))
                         (\<lambda>(StartCodes, rs8).
                       (case readUint16s 0 segCount rs8 (replicate segCount 0) of
                          (IdDeltas, rs9) \<Rightarrow>
                          if (Len rs9 - 2 * segCount) mod 2 \<noteq> 0 then Error ''cmap: bad subtable''
                          else
                            (let glyphIdArrayLength = (Len rs9 - 2 * segCount) div 2 in
                             rbind (readIdRangeOffset 0 segCount rs9 EndCodes StartCodes
                                      glyphIdArrayLength (replicate segCount 0))
                               (\<lambda>(IdRangeOffsets, rs10).
                             rbind (readGlyphIdArray 0 glyphIdArrayLength rs10 NumGlyphs
                                      (replicate glyphIdArrayLength 0))
                               (\<lambda>(arr, rs11).
                                  Ok \<lparr>StartCode = StartCodes, EndCode = EndCodes,
                                      IdDelta = IdDeltas, IdRangeOffset = IdRangeOffsets,
                                      GlyphIdArray = arr\<rparr>))))))))))))))"


subsection \<open>Decoding the other formats\<close>

text \<open>\<^verbatim>\<open>case 0\<close> (lines 357 to 370).\<close>

definition parseCmapFormat0 :: "binaryReader \<Rightarrow> uint16 \<Rightarrow> cmapFormat0 result" where
  "parseCmapFormat0 rs NumGlyphs =
     (if Len rs \<noteq> 258 then Error ''cmap: bad subtable''
      else
        (case ReadUint16 rs of (languageID, rs1) \<Rightarrow>
         (case ReadBytes rs1 256 of (arr, rs2) \<Rightarrow>
            if list_ex (\<lambda>glyphID. NumGlyphs \<le> ucast glyphID) arr
            then Error ''cmap: bad glyphID in subtable''
            else Ok \<lparr>GlyphIdArray0 = arr\<rparr>)))"

text \<open>\<^verbatim>\<open>case 6\<close> (lines 443 to 459): the glyph IDs are stored as read.\<close>

definition parseCmapFormat6 :: "binaryReader \<Rightarrow> cmapFormat6 result" where
  "parseCmapFormat6 rs =
     (if Len rs < 6 then Error ''cmap: bad subtable''
      else
        (case ReadUint16 rs of (language, rs1) \<Rightarrow>
         (case ReadUint16 rs1 of (firstCode, rs2) \<Rightarrow>
         (case ReadUint16 rs2 of (entryCount, rs3) \<Rightarrow>
            if Len rs3 < 2 * unat entryCount then Error ''cmap: bad subtable''
            else
              (case readUint16s 0 (unat entryCount) rs3 (replicate (unat entryCount) 0) of
                 (arr, rs4) \<Rightarrow> Ok \<lparr>FirstCode = firstCode, GlyphIdArray6 = arr\<rparr>)))))"

text \<open>The group loop of \<^verbatim>\<open>case 12\<close> (lines 476 to 488), in \<^verbatim>\<open>uint32\<close>.\<close>

function readGroups ::
  "nat \<Rightarrow> nat \<Rightarrow> binaryReader \<Rightarrow> uint16 \<Rightarrow> cmapFormat12 \<Rightarrow> cmapFormat12 result" where
  "readGroups i numGroups rs NumGlyphs subtable =
     (if i < numGroups then
        (case ReadUint32 rs of (startCharCode, rs1) \<Rightarrow>
         (case ReadUint32 rs1 of (endCharCode, rs2) \<Rightarrow>
         (case ReadUint32 rs2 of (startGlyphID, rs3) \<Rightarrow>
            if endCharCode < startCharCode
               \<or> 0 < i \<and> startCharCode \<le> EndCharCode subtable ! (i - 1)
            then Error ''cmap: bad character code range in subtable''
            else if (ucast NumGlyphs :: uint32) \<le> endCharCode - startCharCode
                    \<or> ucast NumGlyphs - (endCharCode - startCharCode) \<le> startGlyphID
            then Error ''cmap: bad glyphID in subtable''
            else readGroups (i + 1) numGroups rs3 NumGlyphs
                   (subtable\<lparr>StartCharCode := (StartCharCode subtable)[i := startCharCode],
                             EndCharCode := (EndCharCode subtable)[i := endCharCode],
                             StartGlyphID := (StartGlyphID subtable)[i := startGlyphID]\<rparr>))))
      else Ok subtable)"
  by pat_completeness auto
termination
  by (relation "measure (\<lambda>(i, numGroups, rs, NumGlyphs, subtable). numGroups - i)") auto

declare readGroups.simps [simp del]

definition parseCmapFormat12 :: "binaryReader \<Rightarrow> uint16 \<Rightarrow> cmapFormat12 result" where
  "parseCmapFormat12 rs NumGlyphs =
     (if Len rs < 8 then Error ''cmap: bad subtable''
      else
        (case ReadUint32 rs of (language, rs1) \<Rightarrow>
         (case ReadUint32 rs1 of (numGroups, rs2) \<Rightarrow>
            if MaxCmapSegments < unat numGroups
            then Error ''cmap: too many segments in subtable''
            else if Len rs2 < 12 * unat numGroups then Error ''cmap: bad subtable''
            else readGroups 0 (unat numGroups) rs2 NumGlyphs
                   \<lparr>StartCharCode = replicate (unat numGroups) 0,
                    EndCharCode = replicate (unat numGroups) 0,
                    StartGlyphID = replicate (unat numGroups) 0\<rparr>)))"

subsection \<open>The encoding records and the overlap checks\<close>

text \<open>
  The state of the record loop of \<^verbatim>\<open>parseCmap\<close>: the local slices
  \<^verbatim>\<open>offsets\<close> and \<^verbatim>\<open>lengths\<close> and the table under construction.
\<close>

record cmapState =
  offsets :: "uint32 list"
  lengths :: "uint32 list"
  Cmap :: cmapTable

text \<open>
  Lines 318 to 322, before the subtable's length is known: the offset is compared with
  \<^verbatim>\<open>offsets[i]\<close> and with \<^verbatim>\<open>lengths[i]\<close>.
\<close>

definition startsInside :: "uint32 \<Rightarrow> uint32 list \<Rightarrow> uint32 list \<Rightarrow> bool" where
  "startsInside offset os ls = list_ex (\<lambda>(a, l). a < offset \<and> offset < l) (zip os ls)"

text \<open>
  Lines 341 to 348: \<open>Ok (Some i)\<close> when the pair \<open>(offset, length)\<close> is the
  \<open>i\<close>-th known one (the \<^verbatim>\<open>break\<close>), \<open>Ok None\<close> when the loop runs out
  (\<^verbatim>\<open>subtableID\<close> stays \<open>-1\<close>).
\<close>

function findSubtable ::
  "uint32 \<Rightarrow> uint32 \<Rightarrow> uint32 list \<Rightarrow> uint32 list \<Rightarrow> nat \<Rightarrow> nat option result" where
  "findSubtable offset len os ls i =
     (if i < length os then
        (if offset = os ! i \<and> len = ls ! i then Ok (Some i)
         else if offset \<le> os ! i \<and> os ! i < offset + len then Error ''cmap: bad subtable''
         else findSubtable offset len os ls (i + 1))
      else Ok None)"
  by pat_completeness auto
termination
  by (relation "measure (\<lambda>(offset, len, os, ls, i). length os - i)") auto

declare findSubtable.simps [simp del]

text \<open>
  Lines 324 to 337: the subtable's declared length, by its format. \<open>None\<close> is the
  unknown format.
\<close>

definition subtableLength :: "uint16 \<Rightarrow> binaryReader \<Rightarrow> (uint32 \<times> binaryReader) option" where
  "subtableLength format rs =
     (if format = 0 \<or> format = 2 \<or> format = 4 \<or> format = 6 then
        (case ReadUint16 rs of (l, rs1) \<Rightarrow> Some (ucast l, rs1))
      else if format = 8 \<or> format = 10 \<or> format = 12 \<or> format = 13 then
        (case ReadUint16 rs of (reserved, rs1) \<Rightarrow> Some (ReadUint32 rs1))
      else if format = 14 then Some (ReadUint32 rs)
      else None)"

text \<open>
  The \<^verbatim>\<open>switch format\<close> of lines 356 to 490: a subtable of format 0, 4, 6 or 12 is
  decoded and appended; any other format appends nothing.
\<close>

definition decodeSubtable ::
  "uint16 \<Rightarrow> binaryReader \<Rightarrow> uint16 \<Rightarrow> cmapSubtable list \<Rightarrow> cmapSubtable list result" where
  "decodeSubtable format rs NumGlyphs subtables =
     (if format = 0 then
        rbind (parseCmapFormat0 rs NumGlyphs) (\<lambda>t. Ok (subtables @ [Format0 t]))
      else if format = 4 then
        rbind (parseCmapFormat4 rs NumGlyphs) (\<lambda>t. Ok (subtables @ [Format4 t]))
      else if format = 6 then
        rbind (parseCmapFormat6 rs) (\<lambda>t. Ok (subtables @ [Format6 t]))
      else if format = 12 then
        rbind (parseCmapFormat12 rs NumGlyphs) (\<lambda>t. Ok (subtables @ [Format12 t]))
      else Ok subtables)"

text \<open>
  The body of the record loop (lines 310 to 497) for one encoding record. The slice
  expression \<^verbatim>\<open>rs.buf[:length:length]\<close> panics when the length exceeds the
  capacity of \<^verbatim>\<open>b[offset:]\<close>, which is what is left of the table.
\<close>

definition parseCmapRecord ::
  "byte list \<Rightarrow> uint16 \<Rightarrow> binaryReader \<Rightarrow> cmapState \<Rightarrow> (binaryReader \<times> cmapState) result" where
  "parseCmapRecord b NumGlyphs r st =
     (case ReadUint16 r of (platformID, r1) \<Rightarrow>
      (case ReadUint16 r1 of (encodingID, r2) \<Rightarrow>
      (case ReadUint32 r2 of (offset, r3) \<Rightarrow>
         if (of_nat (length b) :: uint32) - 8 < offset then Error ''cmap: bad subtable''
         else if startsInside offset (offsets st) (lengths st) then Error ''cmap: bad subtable''
         else
           (case ReadUint16 (newBinaryReader (drop (unat offset) b)) of (format, rs1) \<Rightarrow>
            (case subtableLength format rs1 of
               None \<Rightarrow> Error ''cmap: bad format for subtable''
             | Some (len, rs2) \<Rightarrow>
                 if len < 8 \<or> (0xFFFFFFFF :: uint32) - offset < len
                 then Error ''cmap: bad subtable''
                 else
                   rbind (findSubtable offset len (offsets st) (lengths st) 0) (\<lambda>found.
                     if length (buf rs2) < unat len then Panic
                     else
                       (let rs3 = rs2\<lparr>buf := take (unat len) (buf rs2)\<rparr> in
                        rbind
                          (case found of
                             Some i \<Rightarrow> Ok (i, st)
                           | None \<Rightarrow>
                               rbind (decodeSubtable format rs3 NumGlyphs
                                        (Subtables (Cmap st))) (\<lambda>subtables.
                                 Ok (length (Subtables (Cmap st)),
                                     st\<lparr>offsets := offsets st @ [offset],
                                        lengths := lengths st @ [len],
                                        Cmap := (Cmap st)\<lparr>Subtables := subtables\<rparr>\<rparr>)))
                          (\<lambda>(subtableID, st1).
                             Ok (r3, st1\<lparr>Cmap := (Cmap st1)\<lparr>EncodingRecords :=
                                   EncodingRecords (Cmap st1) @
                                     [\<lparr>PlatformID = platformID, EncodingID = encodingID,
                                       Format = format,
                                       Subtable = of_nat subtableID\<rparr>]\<rparr>\<rparr>)))))))))"

function parseCmapRecords ::
  "nat \<Rightarrow> nat \<Rightarrow> byte list \<Rightarrow> uint16 \<Rightarrow> binaryReader \<Rightarrow> cmapState \<Rightarrow> cmapState result" where
  "parseCmapRecords j numTables b NumGlyphs r st =
     (if j < numTables then
        rbind (parseCmapRecord b NumGlyphs r st) (\<lambda>(r', st').
          parseCmapRecords (j + 1) numTables b NumGlyphs r' st')
      else Ok st)"
  by pat_completeness auto
termination
  by (relation "measure (\<lambda>(j, numTables, b, NumGlyphs, r, st). numTables - j)") auto

declare parseCmapRecords.simps [simp del]

text \<open>
  \<^verbatim>\<open>parseCmap\<close>, returning the loop's final state: the decoded table together with
  the byte ranges the overlap checks have accepted.
\<close>

definition parseCmap_state :: "byte list option \<Rightarrow> uint16 \<Rightarrow> cmapState result" where
  "parseCmap_state tab NumGlyphs =
     (case tab of
        None \<Rightarrow> Error ''cmap: missing table''
      | Some b \<Rightarrow>
          if length b < 4 then Error ''cmap: bad table''
          else
            (case ReadUint16 (newBinaryReader b) of (version, r1) \<Rightarrow>
               if version \<noteq> 0 then Error ''cmap: bad version''
               else
                 (case ReadUint16 r1 of (numTables, r2) \<Rightarrow>
                    if length b < 4 + 8 * unat numTables then Error ''cmap: bad table''
                    else parseCmapRecords 0 (unat numTables) b NumGlyphs r2
                           \<lparr>offsets = [0], lengths = [4 + 8 * ucast numTables],
                            Cmap = \<lparr>EncodingRecords = [], Subtables = []\<rparr>\<rparr>)))"

definition parseCmap :: "byte list option \<Rightarrow> uint16 \<Rightarrow> cmapTable result" where
  "parseCmap tab NumGlyphs = rbind (parseCmap_state tab NumGlyphs) (\<lambda>st. Ok (Cmap st))"

section \<open>The table directory\<close>

text \<open>
  Modelled from the spec: \<^verbatim>\<open>calcChecksum\<close>, which is not among the sources: the
  sum of the big-endian 32-bit words of the padded table range. \<^verbatim>\<open>ParseSFNT\<close>
  calls it on a range whose length is a multiple of four.
\<close>

fun calcChecksum :: "byte list \<Rightarrow> uint32" where
  "calcChecksum (a # b # c # d # rest) = be32 a b c d + calcChecksum rest"
| "calcChecksum rest = 0"

text \<open>
  \<^verbatim>\<open>binary.BigEndian.Uint32(b[p:])\<close> and \<^verbatim>\<open>binary.BigEndian.PutUint32(b[p:], v)\<close>
  of the standard library. \<^verbatim>\<open>ParseSFNT\<close> uses both at \<open>p = offset + 8\<close> of a
  table of at least 12 bytes that lies within the buffer.
\<close>

definition Uint32 :: "byte list \<Rightarrow> nat \<Rightarrow> uint32" where
  "Uint32 b p = be32 (b ! p) (b ! (p + 1)) (b ! (p + 2)) (b ! (p + 3))"

definition PutUint32 :: "byte list \<Rightarrow> nat \<Rightarrow> uint32 \<Rightarrow> byte list" where
  "PutUint32 b p v =
     b[p := ucast (drop_bit 24 v), p + 1 := ucast (drop_bit 16 v),
       p + 2 := ucast (drop_bit 8 v), p + 3 := ucast v]"

definition bytesOf :: "string \<Rightarrow> byte list" where
  "bytesOf s = map (\<lambda>c. of_nat (of_char c)) s"

text \<open>
  The directory loop of \<^verbatim>\<open>ParseSFNT\<close> (lines 88 to 115). The reader and the
  table slices share the caller's buffer, so the buffer travels in the reader's
  \<open>buf\<close>, every write goes to it, and a table is kept as its range
  \<open>(offset, length)\<close> of that buffer. The map \<^verbatim>\<open>tables\<close> is an association
  list with the newest binding first, read with \<open>map_of\<close>. The function returns the
  reader, whose \<open>buf\<close> is the buffer as \<^verbatim>\<open>ParseSFNT\<close> leaves it, with the
  outcome. The error value \<^verbatim>\<open>ErrInvalidFontData\<close> is declared outside the sources;
  it is written here as the error "invalid font data".
\<close>

function ParseSFNT_tables ::
  "nat \<Rightarrow> nat \<Rightarrow> binaryReader \<Rightarrow> (string \<times> nat \<times> nat) list \<Rightarrow>
   binaryReader \<times> (string \<times> nat \<times> nat) list result" where
  "ParseSFNT_tables i numTables r tables =
     (if i < numTables then
        (case ReadString r 4 of (tag, r1) \<Rightarrow>
         (case ReadUint32 r1 of (checksum, r2) \<Rightarrow>
         (case ReadUint32 r2 of (offset, r3) \<Rightarrow>
         (case ReadUint32 r3 of (len, r4) \<Rightarrow>
            (let padding = (4 - (len AND 3)) AND 3;
                 n = (of_nat (length (buf r4)) :: uint32)
             in if n \<le> offset \<or> n - offset < len \<or> n - offset - len < padding
                then (r4, Error ''invalid font data'')
                else if tag = ''head'' \<and> len < 12 then (r4, Error ''invalid font data'')
                else
                  (let checksumAdjustment =
                         (if tag = ''head'' then Uint32 (buf r4) (unat offset + 8) else 0);
                       r5 = (if tag = ''head''
                             then r4\<lparr>buf := PutUint32 (buf r4) (unat offset + 8) 0\<rparr> else r4)
                   in if calcChecksum (take (unat len + unat padding)
                                         (drop (unat offset) (buf r5))) \<noteq> checksum
                      then (r5, Error (tag @ '': bad checksum''))
                      else
                        (let r6 = (if tag = ''head''
                                   then r5\<lparr>buf := PutUint32 (buf r5) (unat offset + 8)
                                                      checksumAdjustment\<rparr>
                                   else r5)
                         in ParseSFNT_tables (i + 1) numTables r6
                              ((tag, unat offset, unat len) # tables))))))))
      else (r, Ok tables))"
  by pat_completeness auto
termination
  by (relation "measure (\<lambda>(i, numTables, r, tables). numTables - i)") auto

declare ParseSFNT_tables.simps [simp del]

text \<open>
  \<^verbatim>\<open>ParseSFNT\<close> up to the end of the directory loop (lines 66 to 115): the buffer as
  the call leaves it, and the table ranges or the error. Nothing after line 115 writes
  to the buffer.
\<close>

definition ParseSFNT_directory ::
  "byte list \<Rightarrow> byte list \<times> (string \<times> nat \<times> nat) list result" where
  "ParseSFNT_directory b =
     (if length b < 12 \<or> 2147483647 < length b then (b, Error ''invalid font data'')
      else
        (case ReadString (newBinaryReader b) 4 of (sfntVersion, r1) \<Rightarrow>
           if sfntVersion \<noteq> ''OTTO'' \<and> Uint32 (bytesOf sfntVersion) 0 \<noteq> 0x00010000
           then (b, Error ''bad SFNT version'')
           else
             (case ReadUint16 r1 of (numTables, r2) \<Rightarrow>
              (case ReadUint16 r2 of (searchRange, r3) \<Rightarrow>
              (case ReadUint16 r3 of (entrySelector, r4) \<Rightarrow>
              (case ReadUint16 r4 of (rangeShift, r5) \<Rightarrow>
                 if length b < 12 + 16 * unat numTables then (b, Error ''invalid font data'')
                 else
                   (case ParseSFNT_tables 0 (unat numTables) r5 [] of
                      (r6, res) \<Rightarrow> (buf r6, res))))))))"

text \<open>
  \<^verbatim>\<open>sfnt.Tables[tag]\<close>: the bytes of a table, a slice of the buffer; \<open>None\<close> when
  the directory has no such tag.
\<close>

definition Tables :: "byte list \<Rightarrow> (string \<times> nat \<times> nat) list \<Rightarrow> string \<Rightarrow> byte list option" where
  "Tables b tables tag =
     map_option (\<lambda>(offset, len). take len (drop offset b)) (map_of tables tag)"

section \<open>Kerning (kern)\<close>

record kernPair =
  Key :: uint32
  Value :: uint16

text \<open>\<^verbatim>\<open>Coverage\<close> is the array \<^verbatim>\<open>[8]bool\<close>, indexed from 0 to 7.\<close>

record kernFormat0 =
  Coverage :: "nat \<Rightarrow> bool"
  Pairs :: "kernPair list"

function kernFormat0_Get_loop :: "kernPair list \<Rightarrow> uint32 \<Rightarrow> nat \<Rightarrow> nat \<Rightarrow> uint16" where
  "kernFormat0_Get_loop pairs key lo hi =
     (if lo < hi then
        (let mid = (lo + hi) div 2; pair = pairs ! mid
         in if Key pair < key then kernFormat0_Get_loop pairs key (mid + 1) hi
            else if key < Key pair then kernFormat0_Get_loop pairs key lo mid
            else Value pair)
      else 0)"
  by pat_completeness auto
termination
  by (relation "measure (\<lambda>(pairs, key, lo, hi). hi - lo)") auto

declare kernFormat0_Get_loop.simps [simp del]

definition kernFormat0_Get :: "kernFormat0 \<Rightarrow> uint16 \<Rightarrow> uint16 \<Rightarrow> uint16" where
  "kernFormat0_Get subtable l r =
     kernFormat0_Get_loop (Pairs subtable) (push_bit 16 (ucast l) OR ucast r) 0
       (length (Pairs subtable))"

text \<open>
  \<^verbatim>\<open>kernTable.Get\<close>: the running value \<open>k\<close> is an \<^verbatim>\<open>int16\<close>, compared as a
  signed number.
\<close>

fun kernTable_Get_loop :: "kernFormat0 list \<Rightarrow> uint16 \<Rightarrow> uint16 \<Rightarrow> uint16 \<Rightarrow> uint16" where
  "kernTable_Get_loop [] l r k = k"
| "kernTable_Get_loop (subtable # rest) l r k =
     (if \<not> Coverage subtable 1 then
        kernTable_Get_loop rest l r (k + kernFormat0_Get subtable l r)
      else if sint k < sint (kernFormat0_Get subtable l r) then
        kernTable_Get_loop rest l r (kernFormat0_Get subtable l r)
      else kernTable_Get_loop rest l r k)"

text \<open>The field is \<^verbatim>\<open>Subtables\<close> in the source.\<close>

record kernTable =
  kernSubtables :: "kernFormat0 list"

definition kernTable_Get :: "kernTable \<Rightarrow> uint16 \<Rightarrow> uint16 \<Rightarrow> uint16" where
  "kernTable_Get kern l r = kernTable_Get_loop (kernSubtables kern) l r 0"

text \<open>
  \<^verbatim>\<open>SFNT.Kerning\<close>, on the field it reads: \<^verbatim>\<open>sfnt.Kern\<close> is a pointer to a
  \<^verbatim>\<open>kernTable\<close>, nil until \<^verbatim>\<open>parseKern\<close> has set it. \<^verbatim>\<open>kernTable.Get\<close> reads \<^verbatim>\<open>kern.Subtables\<close> through the receiver, so a
  nil receiver panics.
\<close>

definition Kerning :: "kernTable option \<Rightarrow> uint16 \<Rightarrow> uint16 \<Rightarrow> uint16 result" where
  "Kerning Kern left right =
     (case Kern of None \<Rightarrow> Panic | Some kern \<Rightarrow> Ok (kernTable_Get kern left right))"

text \<open>The pair loop of \<^verbatim>\<open>parseKern\<close> (lines 1025 to 1031).\<close>

function readPairs ::
  "nat \<Rightarrow> nat \<Rightarrow> binaryReader \<Rightarrow> kernPair list \<Rightarrow> (kernPair list \<times> binaryReader) result" where
  "readPairs i nPairs r pairs =
     (if i < nPairs then
        (case ReadUint32 r of (k, r1) \<Rightarrow>
         (case ReadInt16 r1 of (v, r2) \<Rightarrow>
            (let pairs' = pairs[i := \<lparr>Key = k, Value = v\<rparr>]
             in if 0 < i \<and> Key (pairs' ! i) \<le> Key (pairs' ! (i - 1))
                then Error ''kern: bad left right pair for subtable''
                else readPairs (i + 1) nPairs r2 pairs')))
      else Ok (pairs, r))"
  by pat_completeness auto
termination
  by (relation "measure (\<lambda>(i, nPairs, r, pairs). nPairs - i)") auto

declare readPairs.simps [simp del]

text \<open>
  The subtable loop of \<^verbatim>\<open>parseKern\<close> (lines 994 to 1036). The two
  \<^verbatim>\<open>continue\<close> statements go on with the next subtable from where the reader
  stands. \<open>uint8ToFlags\<close> is not among the sources and is a parameter. The count of
  the final \<^verbatim>\<open>ReadBytes\<close> is computed in \<^verbatim>\<open>uint32\<close>.
\<close>

function parseKern_subtables ::
  "(byte \<Rightarrow> nat \<Rightarrow> bool) \<Rightarrow> nat \<Rightarrow> nat \<Rightarrow> binaryReader \<Rightarrow> kernTable \<Rightarrow>
   kernTable result" where
  "parseKern_subtables uint8ToFlags j nTables r kern =
     (if j < nTables then
        (if Len r < 6 then Error ''kern: bad subtable''
         else
           (case ReadUint16 r of (subtableVersion, r1) \<Rightarrow>
              if subtableVersion \<noteq> 0
              then parseKern_subtables uint8ToFlags (j + 1) nTables r1 kern
              else
                (case ReadUint16 r1 of (len, r2) \<Rightarrow>
                 (case ReadUint8 r2 of (format, r3) \<Rightarrow>
                 (case ReadUint8 r3 of (coverage, r4) \<Rightarrow>
                    if format \<noteq> 0
                    then parseKern_subtables uint8ToFlags (j + 1) nTables r4 kern
                    else if Len r4 < 8 then Error ''kern: bad subtable''
                    else
                      (case ReadUint16 r4 of (nPairs, r5) \<Rightarrow>
                       (case ReadUint16 r5 of (searchRange, r6) \<Rightarrow>
                       (case ReadUint16 r6 of (entrySelector, r7) \<Rightarrow>
                       (case ReadUint16 r7 of (rangeShift, r8) \<Rightarrow>
                          if unat len < 14 + 6 * unat nPairs
                          then Error ''kern: bad length for subtable''
                          else
                            rbind (readPairs 0 (unat nPairs) r8
                                     (replicate (unat nPairs) \<lparr>Key = 0, Value = 0\<rparr>))
                              (\<lambda>(pairs, r9).
                                 (case ReadBytes r9
                                         (unat ((ucast len :: uint32)
                                                - (of_nat (Pos r9) - of_nat (Pos r)))) of
                                    (unread, r10) \<Rightarrow>
                                      parseKern_subtables uint8ToFlags (j + 1) nTables r10
                                        (kern\<lparr>kernSubtables := kernSubtables kern @
                                           [\<lparr>Coverage = uint8ToFlags coverage,
                                             Pairs = pairs\<rparr>]\<rparr>))))))))))))
      else Ok kern)"
  by pat_completeness auto
termination
  by (relation "measure (\<lambda>(f, j, nTables, r, kern). nTables - j)") auto

declare parseKern_subtables.simps [simp del]

definition parseKern ::
  "(byte \<Rightarrow> nat \<Rightarrow> bool) \<Rightarrow> byte list option \<Rightarrow> kernTable result" where
  "parseKern uint8ToFlags tab =
     (case tab of
        None \<Rightarrow> Error ''kern: missing table''
      | Some b \<Rightarrow>
          if length b < 4 then Error ''kern: bad table''
          else
            (case ReadUint16 (newBinaryReader b) of (version, r1) \<Rightarrow>
               if version \<noteq> 0 then Error ''kern: bad version''
               else
                 (case ReadUint16 r1 of (nTables, r2) \<Rightarrow>
                    parseKern_subtables uint8ToFlags 0 (unat nTables) r2
                      \<lparr>kernSubtables = []\<rparr>)))"

text \<open>
  The field \<^verbatim>\<open>sfnt.Kern\<close> after the table loop of \<^verbatim>\<open>ParseSFNT\<close> (lines 162 to
  187): \<^verbatim>\<open>parseKern\<close> runs only for a directory entry named \<^verbatim>\<open>kern\<close>, which
  is not among the required tables, and nothing else assigns the field.
\<close>

definition ParseSFNT_Kern ::
  "(byte \<Rightarrow> nat \<Rightarrow> bool) \<Rightarrow> byte list \<Rightarrow> (string \<times> nat \<times> nat) list \<Rightarrow>
   kernTable option result" where
  "ParseSFNT_Kern uint8ToFlags b tables =
     (case Tables b tables ''kern'' of
        None \<Rightarrow> Ok None
      | Some t \<Rightarrow> rbind (parseKern uint8ToFlags (Some t)) (\<lambda>kern. Ok (Some kern)))"

section \<open>Glyph names (post)\<close>

record postTable =
  ItalicAngle :: uint32
  UnderlinePosition :: uint16
  UnderlineThickness :: uint16
  IsFixedPitch :: uint32
  MinMemType42 :: uint32
  MaxMemType42 :: uint32
  MinMemType1 :: uint32
  MaxMemType1 :: uint32
  GlyphName :: "string list"

definition postTable_Get :: "postTable \<Rightarrow> uint16 \<Rightarrow> string result" where
  "postTable_Get post glyphID =
     (if (of_nat (length (GlyphName post)) :: uint16) \<le> glyphID then Ok []
      else at (GlyphName post) (uint glyphID))"

text \<open>The string pool of a version 2.0 table (lines 1381 to 1388).\<close>

function readStringData :: "binaryReader \<Rightarrow> string list \<Rightarrow> (string list \<times> binaryReader) result" where
  "readStringData r stringData =
     (if 2 \<le> Len r then
        (case ReadUint8 r of (len, r1) \<Rightarrow>
           if Len r1 < unat len then Error ''post: bad table''
           else
             (case ReadString r1 (unat len) of (str, r2) \<Rightarrow>
                readStringData r2 (stringData @ [str])))
      else Ok (stringData, r))"
  by pat_completeness auto
termination
  by (relation "measure (\<lambda>(r, stringData). Len r)")
    (auto simp: ReadUint8_def ReadByte_def ReadString_def ReadBytes_def Len_def
          split: if_splits)

declare readStringData.simps [simp del]

text \<open>
  The name loop (lines 1394 to 1404). \<open>macintoshGlyphNames\<close> is the table of the 258
  standard names, which is not among the sources and is a parameter. The comparison
  \<^verbatim>\<open>len(stringData) < int(index)-258\<close> is made in \<^verbatim>\<open>int\<close>; the index
  \<^verbatim>\<open>index-258\<close> is a \<^verbatim>\<open>uint16\<close>.
\<close>

function readGlyphNames ::
  "string list \<Rightarrow> string list \<Rightarrow> nat \<Rightarrow> nat \<Rightarrow> binaryReader \<Rightarrow> string list \<Rightarrow>
   string list result" where
  "readGlyphNames macintoshGlyphNames stringData i n r names =
     (if i < n then
        (case ReadUint16 r of (index, r1) \<Rightarrow>
           if index < 258 then
             rbind (at macintoshGlyphNames (uint index)) (\<lambda>name.
               readGlyphNames macintoshGlyphNames stringData (i + 1) n r1 (names[i := name]))
           else if int (length stringData) < uint index - 258 then Error ''post: bad table''
           else
             rbind (at stringData (uint (index - 258))) (\<lambda>name.
               readGlyphNames macintoshGlyphNames stringData (i + 1) n r1 (names[i := name])))
      else Ok names)"
  by pat_completeness auto
termination
  by (relation "measure (\<lambda>(m, stringData, i, n, r, names). n - i)") auto

declare readGlyphNames.simps [simp del]

text \<open>
  \<^verbatim>\<open>parsePost\<close>, given the table's bytes, \<^verbatim>\<open>sfnt.IsCFF\<close> and
  \<^verbatim>\<open>Maxp.NumGlyphs\<close>.
\<close>

definition parsePost ::
  "string list \<Rightarrow> byte list option \<Rightarrow> bool \<Rightarrow> uint16 \<Rightarrow> postTable result" where
  "parsePost macintoshGlyphNames tab IsCFF NumGlyphs =
     (case tab of
        None \<Rightarrow> Error ''post: missing table''
      | Some b \<Rightarrow>
          if length b < 32 then Error ''post: bad table''
          else
            (case ReadBytes (newBinaryReader b) 4 of (version, r1) \<Rightarrow>
             (case ReadUint32 r1 of (italicAngle, r2) \<Rightarrow>
             (case ReadInt16 r2 of (underlinePosition, r3) \<Rightarrow>
             (case ReadInt16 r3 of (underlineThickness, r4) \<Rightarrow>
             (case ReadUint32 r4 of (isFixedPitch, r5) \<Rightarrow>
             (case ReadUint32 r5 of (minMemType42, r6) \<Rightarrow>
             (case ReadUint32 r6 of (maxMemType42, r7) \<Rightarrow>
             (case ReadUint32 r7 of (minMemType1, r8) \<Rightarrow>
             (case ReadUint32 r8 of (maxMemType1, r9) \<Rightarrow>
                (let post = \<lparr>ItalicAngle = italicAngle,
                              UnderlinePosition = underlinePosition,
                              UnderlineThickness = underlineThickness,
                              IsFixedPitch = isFixedPitch,
                              MinMemType42 = minMemType42, MaxMemType42 = maxMemType42,
                              MinMemType1 = minMemType1, MaxMemType1 = maxMemType1,
                              GlyphName = []\<rparr>
                 in if Uint32 version 0 = 0x00010000 \<and> \<not> IsCFF \<and> length b = 32 then Ok post
                    else if Uint32 version 0 = 0x00020000 \<and> \<not> IsCFF \<and> 34 \<le> length b then
                      (case ReadUint16 r9 of (numGlyphs, r10) \<Rightarrow>
                         if numGlyphs \<noteq> NumGlyphs
                         then Error ''post: numGlyphs does not match maxp table numGlyphs''
                         else if length b < 34 + 2 * unat NumGlyphs then Error ''post: bad table''
                         else
                           rbind (readStringData (Seek r10 (34 + 2 * unat NumGlyphs)) [])
                             (\<lambda>(stringData, r11).
                                if Len r11 \<noteq> 0 then Error ''post: bad table''
                                else
                                  rbind (readGlyphNames macintoshGlyphNames stringData 0
                                           (unat NumGlyphs) (Seek r11 34)
                                           (replicate (unat NumGlyphs) []))
                                    (\<lambda>names. Ok (post\<lparr>GlyphName := names\<rparr>))))
                    else if Uint32 version 0 = 0x00025000 \<and> length b = 32
                    then Error ''post: version 2.5 not supported''
                    else if Uint32 version 0 = 0x00030000 \<and> length b = 32 then Ok post
                    else Error ''post: bad table'')))))))))))"

section \<open>Composite chains\<close>

text \<open>
  A glyph is composite when its data holds the ten-byte header with a negative
  \<^verbatim>\<open>numberOfContours\<close>. Its first component is the one the component loop reads
  first, right behind the header.
\<close>

definition isComposite :: "glyfTable \<Rightarrow> uint16 \<Rightarrow> bool" where
  "isComposite glyf glyphID =
     (case glyfTable_Get glyf glyphID of
        Ok (Some b) \<Rightarrow> 10 \<le> length b \<and> sint (be16 (b ! 0) (b ! 1)) < 0
      | _ \<Rightarrow> False)"

definition firstComponent :: "glyfTable \<Rightarrow> uint16 \<Rightarrow> uint16 option" where
  "firstComponent glyf glyphID =
     (case glyfTable_Get glyf glyphID of
        Ok (Some b) \<Rightarrow>
          (case readComponent \<lparr>buf = b, pos = 10\<rparr> of
             Ok (c, r) \<Rightarrow> Some (subGlyphID c)
           | _ \<Rightarrow> None)
      | _ \<Rightarrow> None)"

text \<open>
  \<open>nests glyf g k\<close>: starting at \<open>g\<close>, following first components \<open>k\<close> times
  passes through composite glyphs only and ends in one: a chain of \<open>k + 1\<close>
  composite glyphs. A glyph whose first component is itself nests to any depth.
\<close>

fun nests :: "glyfTable \<Rightarrow> uint16 \<Rightarrow> nat \<Rightarrow> bool" where
  "nests glyf glyphID 0 = isComposite glyf glyphID"
| "nests glyf glyphID (Suc k) =
     (isComposite glyf glyphID \<and>
      (case firstComponent glyf glyphID of
         Some sub \<Rightarrow> nests glyf sub k
       | None \<Rightarrow> False))"

section \<open>Concrete inputs\<close>

text \<open>
  A \<^verbatim>\<open>glyf\<close> table with one simple glyph of 16 bytes: one contour whose only end
  point is 0 (so one point), no instructions, then the flag byte \<^verbatim>\<open>0x09\<close> (on
  curve, repeat) and the repeat count 1.
\<close>

definition repeatGlyph :: "byte list" where
  "repeatGlyph = [0, 1,  0, 0, 0, 0, 0, 0, 0, 0,  0, 0,  0, 0,  9, 1]"


text \<open>
  The \<^verbatim>\<open>cmap\<close> table of the spec's example scenario B: one encoding record
  (platform 3, encoding 1) and one format 4 subtable of 32 bytes with the segments
  \<open>(0x41, 0x41, idDelta = 29, idRangeOffset = 0)\<close> and
  \<open>(0x42, 0x42, idDelta = 29, idRangeOffset = 0)\<close>.
\<close>

definition scenarioB :: "byte list" where
  "scenarioB =
     [0, 0,  0, 1,   0, 3,  0, 1,  0, 0, 0, 12,
      0, 4,  0, 32,  0, 0,  0, 4,  0, 4,  0, 1,  0, 0,
      0, 0x41,  0, 0x42,   0, 0,   0, 0x41,  0, 0x42,   0, 29,  0, 29,   0, 0,  0, 0]"

definition scenarioB_subtable :: cmapFormat4 where
  "scenarioB_subtable =
     \<lparr>StartCode = [0x41, 0x42], EndCode = [0x41, 0x42], IdDelta = [29, 29],
      IdRangeOffset = [0, 0], GlyphIdArray = []\<rparr>"

definition scenarioB_table :: cmapTable where
  "scenarioB_table =
     \<lparr>EncodingRecords = [\<lparr>PlatformID = 3, EncodingID = 1, Format = 4, Subtable = 0\<rparr>],
      Subtables = [Format4 scenarioB_subtable]\<rparr>"

text \<open>
  A \<^verbatim>\<open>cmap\<close> table with one format 4 subtable of 34 bytes: the segments
  \<open>(0x41, 0x42, idDelta = 0, idRangeOffset = 2)\<close> and
  \<open>(0xFFFF, 0xFFFF, idDelta = 1, idRangeOffset = 0)\<close>, and a glyph index array with the
  single entry 0.
\<close>

definition rangeOffsetCmap :: "byte list" where
  "rangeOffsetCmap =
     [0, 0,  0, 1,   0, 3,  0, 1,  0, 0, 0, 12,
      0, 4,  0, 34,  0, 0,  0, 4,  0, 4,  0, 1,  0, 0,
      0, 0x42,  0xFF, 0xFF,   0, 0,   0, 0x41,  0xFF, 0xFF,   0, 0,  0, 1,
      0, 2,  0, 0,   0, 0]"

definition rangeOffset_subtable :: cmapFormat4 where
  "rangeOffset_subtable =
     \<lparr>StartCode = [0x41, 0xFFFF], EndCode = [0x42, 0xFFFF], IdDelta = [0, 1],
      IdRangeOffset = [2, 0], GlyphIdArray = [0]\<rparr>"

text \<open>
  A \<^verbatim>\<open>cmap\<close> table of 44 bytes with two encoding records. The first points at
  offset 20, a format 6 subtable of declared length 24 (first code \<open>0x41\<close>, six
  entries), which occupies the bytes 20 to 43. The second points at offset 28, inside
  the first: the bytes there read as a format 6 subtable of declared length 10 with no
  entries, which occupies the bytes 28 to 37.
\<close>

definition overlapCmap :: "byte list" where
  "overlapCmap =
     [0, 0,  0, 2,   0, 0,  0, 0,  0, 0, 0, 20,   0, 3,  0, 1,  0, 0, 0, 28,
      0, 6,  0, 24,  0, 0,  0, 0x41,  0, 6,
      0, 10,  0, 0,  0, 0x61,  0, 0,  0, 0,  0, 0,   0, 0]"

text \<open>
  A font file of 40 bytes: the header (version \<^verbatim>\<open>0x00010000\<close>, one table), one
  directory entry (tag \<^verbatim>\<open>head\<close>, checksum 1, offset 28, length 12) and the 12
  bytes of the table, whose checksum adjustment (its bytes 8 to 11, the bytes 36 to
  39 of the file) is \<^verbatim>\<open>0xDEADBEEF\<close>. The words of the table with the adjustment
  zeroed add up to 0, not to 1.
\<close>

definition badHeadChecksum :: "byte list" where
  "badHeadChecksum =
     [0, 1, 0, 0,  0, 1,  0, 0,  0, 0,  0, 0,
      0x68, 0x65, 0x61, 0x64,   0, 0, 0, 1,   0, 0, 0, 28,   0, 0, 0, 12,
      0, 0, 0, 0,  0, 0, 0, 0,  0xDE, 0xAD, 0xBE, 0xEF]"

text \<open>
  A \<^verbatim>\<open>post\<close> table of version 2.0 and 36 bytes for a font with one glyph: the
  header, \<^verbatim>\<open>numGlyphs = 1\<close>, the name index 258, and an empty string pool.
\<close>

definition poolEndPost :: "byte list" where
  "poolEndPost =
     [0, 2, 0, 0,  0, 0, 0, 0,  0, 0,  0, 0,  0, 0, 0, 0,
      0, 0, 0, 0,  0, 0, 0, 0,  0, 0, 0, 0,  0, 0, 0, 0,
      0, 1,  1, 2]"

section \<open>Properties of the location index\<close>













section \<open>Properties of glyph outlines\<close>


lemma nests_isComposite: "nests glyf g k \<Longrightarrow> isComposite glyf g"
  by (cases k) auto



text \<open>
  Claim C1. Resolving a glyph outline of a successfully parsed font never panics and
  never indexes outside its buffers, in particular while expanding the run-length
  encoded flags of a simple glyph.

  The code does not keep this. The flag loop copies a repeated flag to
  \<^verbatim>\<open>flags[i+j]\<close> for every \<open>j\<close> up to the repeat count without comparing
  \<open>i + j\<close> with the number of points. The table \<open>repeatGlyph\<close> passes
  \<^verbatim>\<open>parseLoca\<close> and \<^verbatim>\<open>parseGlyf\<close>; its glyph 0 has one point and a repeat count
  of 1, and \<^verbatim>\<open>GlyphContour\<close> panics on \<^verbatim>\<open>flags[1]\<close>.
\<close>

theorem GlyphContour_repeat_past_numPoints:
  "parseLoca (Some [0, 0, 0, 16]) 1 0 = Ok [0, 16] \<and>
   parseGlyf (Some repeatGlyph) [0, 16] = Ok \<lparr>data = repeatGlyph, loca = [0, 16]\<rparr> \<and>
   GlyphContour True (Some \<lparr>data = repeatGlyph, loca = [0, 16]\<rparr>) 0 = Panic"
  by code_simp

section \<open>Properties of character maps\<close>

text \<open>
  What the decoder of a format 4 subtable does establish: the end codes increase
  strictly, and every entry of the glyph index array is below \<^verbatim>\<open>NumGlyphs\<close>.
\<close>

lemma readEndCode_increasing:
  "readEndCode i n rs E = Ok (E', rs') \<Longrightarrow> length E = n \<Longrightarrow>
   (\<forall>k. Suc k < i \<longrightarrow> E ! k < E ! Suc k) \<Longrightarrow>
   length E' = n \<and> (\<forall>k. Suc k < n \<longrightarrow> E' ! k < E' ! Suc k)"
proof (induction i n rs E rule: readEndCode.induct)
  case (1 i n rs E)
  show ?case
  proof (cases "i < n")
    case False
    with "1.prems" show ?thesis by (simp add: readEndCode.simps[of i n])
  next
    case True
    obtain v rs1 where rd: "ReadUint16 rs = (v, rs1)" by (cases "ReadUint16 rs")
    have nobad: "\<not> (0 < i \<and> v \<le> E ! (i - 1))"
      using "1.prems"(1) True rd by (subst (asm) readEndCode.simps) (auto split: if_splits)
    have rec: "readEndCode (i + 1) n rs1 (E[i := v]) = Ok (E', rs')"
      using "1.prems"(1) True rd nobad by (subst (asm) readEndCode.simps) (auto split: if_splits)
    have mono: "\<forall>k. Suc k < i + 1 \<longrightarrow> E[i := v] ! k < E[i := v] ! Suc k"
    proof (intro allI impI)
      fix k assume k: "Suc k < i + 1"
      show "E[i := v] ! k < E[i := v] ! Suc k"
      proof (cases "Suc k = i")
        case True
        then show ?thesis using nobad \<open>i < n\<close> "1.prems"(2) by (auto simp: not_le)
      next
        case False
        with k have "Suc k < i" by simp
        then show ?thesis using "1.prems"(3) by simp
      qed
    qed
    show ?thesis
      by (rule "1.IH"[OF True rd[symmetric] nobad rec]) (use "1.prems"(2) mono in simp_all)
  qed
qed


lemma rbind_OkE:
  assumes "rbind m f = Ok y"
  obtains a where "m = Ok a" and "f a = Ok y"
  using assms by (cases m) auto

lemma parseCmapFormat4_EndCode_increasing:
  assumes "parseCmapFormat4 rs NumGlyphs = Ok t"
  shows "\<forall>k. Suc k < length (EndCode t) \<longrightarrow> EndCode t ! k < EndCode t ! Suc k"
proof -
  from assms obtain n rs5 E rs6 where
    rd: "readEndCode 0 n rs5 (replicate n 0) = Ok (E, rs6)" and e: "EndCode t = E"
    unfolding parseCmapFormat4_def Let_def
    by (auto elim!: rbind_OkE split: if_splits prod.splits)
  from readEndCode_increasing[OF rd] e show ?thesis by simp
qed

lemma readGlyphIdArray_below:
  "readGlyphIdArray i n rs NumGlyphs arr = Ok (arr', rs') \<Longrightarrow> length arr = n \<Longrightarrow>
   (\<forall>k<i. arr ! k < NumGlyphs) \<Longrightarrow>
   length arr' = n \<and> (\<forall>k<n. arr' ! k < NumGlyphs)"
proof (induction i n rs NumGlyphs arr rule: readGlyphIdArray.induct)
  case (1 i n rs NumGlyphs arr)
  show ?case
  proof (cases "i < n")
    case False
    with "1.prems" show ?thesis by (simp add: readGlyphIdArray.simps[of i n])
  next
    case True
    obtain v rs1 where rd: "ReadUint16 rs = (v, rs1)" by (cases "ReadUint16 rs")
    have ok: "\<not> NumGlyphs \<le> v"
      using "1.prems"(1) True rd by (subst (asm) readGlyphIdArray.simps) (auto split: if_splits)
    have rec: "readGlyphIdArray (i + 1) n rs1 NumGlyphs (arr[i := v]) = Ok (arr', rs')"
      using "1.prems"(1) True rd ok by (subst (asm) readGlyphIdArray.simps) (auto split: if_splits)
    have below: "\<forall>k<i + 1. arr[i := v] ! k < NumGlyphs"
      using "1.prems"(2,3) True ok by (auto simp: nth_list_update less_Suc_eq)
    show ?thesis
      by (rule "1.IH"[OF True rd[symmetric] ok rec]) (use "1.prems"(2) below in simp_all)
  qed
qed

text \<open>
  Claim C2. For a format 4 subtable that decodes successfully and a code point inside a
  segment with a nonzero \<^verbatim>\<open>idRangeOffset\<close>, the index that \<^verbatim>\<open>cmapFormat4.Get\<close>
  computes lies within the decoded glyph index array; the check made while decoding
  covers every code point of the segment, not only its end code.

  The code does not keep this, against its own comment "index is always valid".
  \<^verbatim>\<open>parseCmap\<close> checks the index of the end code only. The table
  \<open>rangeOffsetCmap\<close> decodes; in its first segment the end code \<open>0x42\<close> has the
  index \<open>1 + 1 - 2 = 0\<close>, the start code \<open>0x41\<close> has the index \<open>1 + 0 - 2 = -1\<close>,
  and the lookup of \<open>0x41\<close> panics.
\<close>

theorem cmapFormat4_Get_index_below_zero:
  "parseCmap (Some rangeOffsetCmap) 1 =
     Ok \<lparr>EncodingRecords = [\<lparr>PlatformID = 3, EncodingID = 1, Format = 4, Subtable = 0\<rparr>],
         Subtables = [Format4 rangeOffset_subtable]\<rparr> \<and>
   cmapFormat4_Get rangeOffset_subtable 0x41 = Panic \<and>
   cmapFormat4_Get rangeOffset_subtable 0x42 = Ok (0, True)"
  by code_simp

text \<open>
  Claim C3. For a format 4 subtable that decodes successfully the end codes increase
  strictly, and the lookup of a code point inside a segment returns a glyph ID below
  \<^verbatim>\<open>numGlyphs\<close>, also on the path with \<^verbatim>\<open>idRangeOffset = 0\<close>, where the glyph
  ID is the code point plus \<^verbatim>\<open>idDelta\<close> modulo 65536.

  The code does not keep the second part. Format 0 and format 12 subtables and the
  glyph index array of format 4 are compared with \<^verbatim>\<open>NumGlyphs\<close> while decoding;
  the glyph IDs that \<^verbatim>\<open>idDelta\<close> produces are not. The table \<open>scenarioB\<close> decodes
  for a font with 50 glyphs, and the lookup of \<open>0x41\<close> returns the glyph ID 94.
\<close>

theorem cmapFormat4_Get_idDelta_unchecked:
  "parseCmap (Some scenarioB) 50 = Ok scenarioB_table \<and>
   cmapFormat4_Get scenarioB_subtable 0x41 = Ok (94, True) \<and>
   cmapTable_Get scenarioB_table 0x41 = Ok 94 \<and> \<not> (94 :: uint16) < 50"
  by code_simp

text \<open>
  Claim C5. When \<^verbatim>\<open>parseCmap\<close> succeeds, the byte ranges of any two subtables
  that are not the same (offset, length) pair are disjoint; partial overlap is an error.

  The code does not keep this. The first overlap loop compares the new offset with
  \<^verbatim>\<open>lengths[i]\<close>, not with \<^verbatim>\<open>offsets[i] + lengths[i]\<close>, and the second loop
  only refuses a subtable that starts at or before a known one. A subtable that starts
  inside a known one, at an offset that is not below the known one's length, is
  accepted. \<open>overlapCmap\<close> decodes with the ranges 20 to 43 and 28 to 37.
\<close>

theorem parseCmap_accepts_overlap:
  "parseCmap_state (Some overlapCmap) NumGlyphs =
     Ok \<lparr>offsets = [0, 20, 28], lengths = [20, 24, 10],
         Cmap = \<lparr>EncodingRecords =
                   [\<lparr>PlatformID = 0, EncodingID = 0, Format = 6, Subtable = 0\<rparr>,
                    \<lparr>PlatformID = 3, EncodingID = 1, Format = 6, Subtable = 1\<rparr>],
                 Subtables =
                   [Format6 \<lparr>FirstCode = 0x41, GlyphIdArray6 = [10, 0, 0x61, 0, 0, 0]\<rparr>,
                    Format6 \<lparr>FirstCode = 0x61, GlyphIdArray6 = []\<rparr>]\<rparr>\<rparr> \<and>
   (20 :: uint32) < 28 \<and> (28 :: uint32) < 20 + 24"
  by code_simp

text \<open>
  Claim C9. For the format 4 subtable of scenario B, with the segments
  \<open>(0x41, 0x41, idDelta = 29, 0)\<close> and \<open>(0x42, 0x42, idDelta = 29, 0)\<close>, the lookup of
  \<open>0x41\<close> returns the glyph ID 30, and the lookup of \<open>0x43\<close> finds nothing, so that
  the table's lookup yields the glyph ID 0.

  The first half fails: the glyph ID is the code point plus \<^verbatim>\<open>idDelta\<close> modulo
  65536, which is \<open>65 + 29 = 94\<close>. The counterexample is stated for a font with 100
  glyphs.
\<close>

theorem scenarioB_lookup_A_is_not_30:
  "parseCmap (Some scenarioB) 100 = Ok scenarioB_table \<and>
   cmapFormat4_Get scenarioB_subtable 0x41 = Ok (94, True) \<and>
   cmapTable_Get scenarioB_table 0x41 = Ok 94 \<and> (94 :: uint16) \<noteq> 30"
  by code_simp

text \<open>
  Claim C9, amended. For the format 4 subtable of scenario B the lookup of \<open>0x41\<close>
  returns the glyph ID 94, and the lookup of \<open>0x43\<close> finds nothing, so that the
  table's lookup yields the glyph ID 0. The table decodes to that subtable whatever the
  number of glyphs.
\<close>

theorem scenarioB_lookup:
  "parseCmap (Some scenarioB) NumGlyphs = Ok scenarioB_table \<and>
   cmapFormat4_Get scenarioB_subtable 0x41 = Ok (94, True) \<and>
   cmapTable_Get scenarioB_table 0x41 = Ok 94 \<and>
   cmapFormat4_Get scenarioB_subtable 0x43 = Ok (0, False) \<and>
   cmapTable_Get scenarioB_table 0x43 = Ok 0"
  by code_simp

section \<open>Properties of the table directory\<close>

lemma length_badHeadChecksum: "length badHeadChecksum = 40"
  by (simp add: badHeadChecksum_def)

text \<open>
  Claim C4. After \<^verbatim>\<open>ParseSFNT\<close> returns, with a font or with an error, the buffer
  holds its original contents: the checksum adjustment of the \<^verbatim>\<open>head\<close> table,
  zeroed for the checksum, is restored on every return path, and no other byte is
  written.

  The code does not keep this, against its own comment "replace the overal checksum
  with zero and reset it at the end". The adjustment is written back after the
  checksum comparison, and the return for a bad checksum lies between the two. For
  \<open>badHeadChecksum\<close> the call returns the error "head: bad checksum" and leaves the
  bytes 36 to 39 zero, where the caller had \<^verbatim>\<open>0xDEADBEEF\<close>.
\<close>

theorem ParseSFNT_bad_head_checksum_keeps_zeroes:
  "ParseSFNT_directory badHeadChecksum =
     (badHeadChecksum[36 := 0, 37 := 0, 38 := 0, 39 := 0], Error ''head: bad checksum'') \<and>
   badHeadChecksum[36 := 0, 37 := 0, 38 := 0, 39 := 0] \<noteq> badHeadChecksum"
  unfolding ParseSFNT_directory_def
  apply (simp add: length_badHeadChecksum)
  apply code_simp
  done

section \<open>Properties of the kerning lookup\<close>

text \<open>
  With a \<^verbatim>\<open>kern\<close> table the lookup returns a value, and the value is zero when
  no subtable holds the key of the pair.
\<close>

lemma kernFormat0_Get_loop_absent:
  "(\<forall>i<length pairs. Key (pairs ! i) \<noteq> key) \<Longrightarrow> hi \<le> length pairs \<Longrightarrow>
   kernFormat0_Get_loop pairs key lo hi = 0"
proof (induction pairs key lo hi rule: kernFormat0_Get_loop.induct)
  case (1 pairs key lo hi)
  show ?case
  proof (cases "lo < hi")
    case False
    then show ?thesis by (simp add: kernFormat0_Get_loop.simps)
  next
    case True
    let ?mid = "(lo + hi) div 2"
    from True "1.prems"(2) have m: "?mid < length pairs" by linarith
    with "1.prems"(1) have ne: "Key (pairs ! ?mid) \<noteq> key" by blast
    show ?thesis
    proof (cases "Key (pairs ! ?mid) < key")
      case less: True
      have "kernFormat0_Get_loop pairs key (?mid + 1) hi = 0"
        using "1.IH"(1)[OF True refl refl less "1.prems"] .
      with True less show ?thesis by (subst kernFormat0_Get_loop.simps) (simp add: Let_def)
    next
      case nless: False
      with ne have gt: "key < Key (pairs ! ?mid)" by auto
      from m have "?mid \<le> length pairs" by simp
      from "1.IH"(2)[OF True refl refl nless gt "1.prems"(1) this]
      have "kernFormat0_Get_loop pairs key lo ?mid = 0" .
      with True nless gt show ?thesis by (subst kernFormat0_Get_loop.simps) (simp add: Let_def)
    qed
  qed
qed

lemma kernTable_Get_loop_absent:
  "(\<forall>s\<in>set subtables. kernFormat0_Get s l r = 0) \<Longrightarrow> kernTable_Get_loop subtables l r 0 = 0"
  by (induction subtables) auto

lemma Kerning_absent_pair:
  assumes "\<forall>s\<in>set (kernSubtables kern). \<forall>i<length (Pairs s).
             Key (Pairs s ! i) \<noteq> push_bit 16 (ucast l) OR ucast r"
  shows "Kerning (Some kern) l r = Ok 0"
proof -
  have "\<forall>s\<in>set (kernSubtables kern). kernFormat0_Get s l r = 0"
    using assms by (auto simp: kernFormat0_Get_def intro!: kernFormat0_Get_loop_absent)
  then show ?thesis
    by (simp add: Kerning_def kernTable_Get_def kernTable_Get_loop_absent)
qed

text \<open>
  Claim C8. For a successfully parsed font the kerning lookup is total: when no
  subtable holds the pair the result is zero, and the lookup never fails or panics,
  also for a font without a \<^verbatim>\<open>kern\<close> table, which is optional.

  The code does not keep the last part. \<^verbatim>\<open>kern\<close> is not among the required tables
  and the field \<^verbatim>\<open>Kern\<close> is commented as optional, but \<^verbatim>\<open>SFNT.Kerning\<close> calls
  \<^verbatim>\<open>sfnt.Kern.Get\<close> without a nil check: for a directory without the tag
  \<^verbatim>\<open>kern\<close> the field stays nil and every lookup panics.
\<close>

theorem Kerning_without_kern_table:
  "map_of tables ''kern'' = None \<Longrightarrow>
   ParseSFNT_Kern uint8ToFlags b tables = Ok None \<and> Kerning None left right = Panic"
  by (simp add: ParseSFNT_Kern_def Tables_def Kerning_def)

theorem Kerning_without_kern_table_witness:
  "map_of [(''glyf'', 0 :: nat, 0 :: nat)] ''kern'' = None \<and>
   ParseSFNT_Kern (\<lambda>c k. False) [] [(''glyf'', 0, 0)] = Ok None \<and>
   Kerning None 1 2 = Panic"
  using Kerning_without_kern_table [of "[(''glyf'', 0, 0)]" "\<lambda>c k. False" "[]" 1 2]
  by simp

section \<open>Properties of the glyph names\<close>

text \<open>
  Claim C10. For a \<^verbatim>\<open>post\<close> table of version 2.0, \<^verbatim>\<open>parsePost\<close> returns an
  error or names every glyph without an access out of bounds: a name index \<open>n\<close> of
  258 or more is accepted only when \<open>n - 258\<close> is a position of the string pool; the
  index 258 plus the pool's size is refused.

  The code does not keep this. It refuses the index when
  \<^verbatim>\<open>len(stringData) < int(index)-258\<close>, which lets \<open>index - 258 = len(stringData)\<close>
  through. In \<open>poolEndPost\<close> the pool is empty and the index is 258:
  \<^verbatim>\<open>stringData[0]\<close> panics, whatever the table of standard names.
\<close>

theorem parsePost_index_at_pool_end:
  "parsePost macintoshGlyphNames (Some poolEndPost) False 1 = Panic"
  by code_simp

end
